theory Spec2Isabelle
  imports Complex_Main "HOL-Library.Word"
begin

section \<open>Inline completion provider: data model\<close>

text \<open>
  A shallow embedding of \<^verbatim>\<open>src/components/CodeiumEditor/CompletionProvider.ts\<close>.
  The provider talks to its surroundings through callbacks (\<^verbatim>\<open>setStatus\<close>,
  \<^verbatim>\<open>setMessage\<close>), the console, the cancellation token and one network call. All of
  these become events appended to a trace, in program order. The outcome of the awaited
  network call is a parameter of a run: it is either a rejection or a response.

  JavaScript arrays are objects with identity. The provider's \<^verbatim>\<open>otherDocuments\<close>
  field holds a reference to such an array, so arrays of auxiliary documents live in an
  explicit store and the field holds an address.
\<close>

text \<open>
  Strings that are scanned code unit by code unit (the document text) are lists of
  16-bit code units. Strings that are only copied or concatenated are \<open>string\<close>.
\<close>

type_synonym jsstring = "16 word list"

type_synonym addr = nat

text \<open>
  Modelled from the spec: the \<^verbatim>\<open>Status\<close> enumeration of \<^verbatim>\<open>./Status\<close>, which is not
  among the sources. The spec lists its values as IDLE, PROCESSING, SUCCESS, ERROR.
\<close>

datatype Status = IDLE | PROCESSING | SUCCESS | ERROR

text \<open>The status codes of the RPC library; \<^verbatim>\<open>Code.Canceled\<close> is the one the source tests.\<close>

datatype Code =
    Canceled | Unknown | InvalidArgument | DeadlineExceeded | NotFound | AlreadyExists
  | PermissionDenied | ResourceExhausted | FailedPrecondition | Aborted | OutOfRange
  | Unimplemented | Internal | Unavailable | DataLoss | Unauthenticated

text \<open>
  What an awaited promise may reject with: a \<^verbatim>\<open>ConnectError\<close> carrying a code and a
  message, or any other thrown value.
\<close>

datatype rejection = ConnectError Code string | OtherRejection string

text \<open>
  A JavaScript \<^verbatim>\<open>number\<close>, as far as the source looks at it: the source only tests a
  number for truthiness and copies it. Finite doubles are rationals; \<open>0\<close> and \<open>-0\<close>
  are both \<open>Finite 0\<close>.
\<close>

datatype number = NaN | PosInfinity | NegInfinity | Finite rat

fun truthy :: "number \<Rightarrow> bool" where
  "truthy NaN = False"
| "truthy PosInfinity = True"
| "truthy NegInfinity = True"
| "truthy (Finite r) = (r \<noteq> 0)"

record Position =
  pos_line :: nat
  pos_character :: nat

record Range =
  range_start :: Position
  range_end :: Position

record MonacoPosition =
  lineNumber :: nat
  column :: nat

text \<open>
  Modelled from the spec: the \<^verbatim>\<open>Document\<close> class of \<^verbatim>\<open>./Document\<close> is not among the
  sources. The spec describes it as a read-only view of the editor text with the full
  text, a language identifier and position/offset queries in code-unit space.
\<close>

record Document =
  getText :: jsstring
  languageId :: string
  offsetAt :: "Position \<Rightarrow> nat"
  positionAt :: "nat \<Rightarrow> Position"

text \<open>
  The editor's text model: the view \<^verbatim>\<open>new Document(model)\<close> builds from it, and the
  two options the source reads through \<^verbatim>\<open>model.getOptions()\<close>. The editor's tab size is a
  whole number, so \<^verbatim>\<open>BigInt(tabSize)\<close> is that number.
\<close>

record ITextModel =
  model_document :: Document
  tabSize :: int
  insertSpaces :: bool

record DocumentInfo =
  info_text :: jsstring
  editorLanguage :: string
  language :: nat
  cursorOffset :: int
  lineEnding :: string

record Metadata =
  ideName :: string
  ideVersion :: string
  extensionName :: string
  extensionVersion :: string
  metadata_apiKey :: string
  metadata_sessionId :: string

record EditorOptions =
  options_tabSize :: int
  options_insertSpaces :: bool

record MultilineConfig =
  threshold :: number

record GetCompletionsRequest =
  request_metadata :: Metadata
  request_document :: DocumentInfo
  request_editorOptions :: EditorOptions
  request_otherDocuments :: addr
  request_multilineConfig :: "MultilineConfig option"

record CallOptions =
  headers_Authorization :: string

record Completion =
  completion_text :: string
  completionId :: string

record WireRange =
  startOffset :: nat
  endOffset :: nat

record CompletionItem =
  completion :: "Completion option"
  item_range :: "WireRange option"

text \<open>
  The source guards against a response whose \<^verbatim>\<open>completionItems\<close> is falsy, so the field
  is optional here: \<open>None\<close> is an absent collection, \<open>Some []\<close> an array with no items.
  An array, also an empty one, is truthy in JavaScript.
\<close>

record GetCompletionsResponse =
  completionItems :: "CompletionItem list option"

record Command =
  command_id :: string
  command_title :: string
  command_arguments :: "string list"

record MonacoInlineCompletion =
  insertText :: string
  inline_text :: string
  inline_range :: Range
  command :: Command

record InlineCompletions =
  items :: "MonacoInlineCompletion list"

datatype listener = CancellationCallback | AbortRequest

datatype event =
    OnCancellationRequested listener
  | SetStatus Status
  | SetMessage string
  | ConsoleWarn string
  | GetCompletions GetCompletionsRequest CallOptions

text \<open>
  The fields of \<^verbatim>\<open>MonacoCompletionProvider\<close>. The client and the two callbacks are
  represented by the events they receive.
\<close>

record MonacoCompletionProvider =
  sessionId :: string
  otherDocuments :: addr
  apiKey :: "string option"
  multilineModelThreshold :: "number option"

text \<open>
  The helpers imported from \<^verbatim>\<open>utils/uuid\<close>, \<^verbatim>\<open>utils/identity\<close>, \<^verbatim>\<open>utils/language\<close> and
  \<^verbatim>\<open>./Location\<close> are not among the sources; a run takes them as parameters.
\<close>

record env =
  uuid :: string
  getCurrentURL :: "string option"
  getPackageVersion :: "string option"
  languageIdToEnum :: "string \<Rightarrow> nat"
  fromMonaco :: "MonacoPosition \<Rightarrow> Position"

text \<open>
  The store of arrays (an address is an index into it; a new array is appended) and the
  trace of events so far. Every reference a program holds is live, that is, below the
  length of the store.
\<close>

record world =
  heap :: "DocumentInfo list list"
  trace :: "event list"

definition emit :: "event \<Rightarrow> world \<Rightarrow> world" where
  "emit e w = w\<lparr>trace := trace w @ [e]\<rparr>"

text \<open>\<^verbatim>\<open>a.slice(i, j)\<close> for \<open>0 \<le> i \<le> j\<close>: a new array holding a copy of the elements.\<close>

definition array_slice :: "addr \<Rightarrow> nat \<Rightarrow> nat \<Rightarrow> world \<Rightarrow> addr \<times> world" where
  "array_slice a i j w =
     (length (heap w), w\<lparr>heap := heap w @ [take (j - i) (drop i (heap w ! a))]\<rparr>)"

section \<open>Rendering numbers in template strings\<close>

definition digit_char :: "nat \<Rightarrow> char" where
  "digit_char d = char_of (48 + d)"

fun show_nat :: "nat \<Rightarrow> string" where
  "show_nat n = (if n < 10 then [digit_char n] else show_nat (n div 10) @ [digit_char (n mod 10)])"

declare show_nat.simps [simp del]

section \<open>Offset translation\<close>

text \<open>
  The module \<^verbatim>\<open>utils/utf\<close> is not among the sources, so its two functions are modelled
  from the spec, which calls them \<^verbatim>\<open>codeUnitsToUtf8Bytes\<close> and \<^verbatim>\<open>utf8BytesToCodeUnits\<close>; the
  source imports them as \<^verbatim>\<open>numCodeUnitsToNumUtf8Bytes\<close> and \<^verbatim>\<open>numUtf8BytesToNumCodeUnits\<close>.
  A text is read as JavaScript iterates a string: a high surrogate followed by a low
  surrogate is one code point of two units, every other unit is a code point of its own.
\<close>

definition isHighSurrogate :: "16 word \<Rightarrow> bool" where
  "isHighSurrogate u = (0xD800 \<le> u \<and> u \<le> 0xDBFF)"

definition isLowSurrogate :: "16 word \<Rightarrow> bool" where
  "isLowSurrogate u = (0xDC00 \<le> u \<and> u \<le> 0xDFFF)"

text \<open>
  Modelled from the spec: the byte cost of a code point, missing with \<^verbatim>\<open>utils/utf\<close>. It is
  1 byte up to 0x7F, 2 bytes up to 0x7FF, 3 bytes up to 0xFFFF, and 4 bytes for a complete
  surrogate pair; a lone surrogate is a single unit under the 3-byte rule.
\<close>

definition numUtf8BytesForCodeUnit :: "16 word \<Rightarrow> nat" where
  "numUtf8BytesForCodeUnit u = (if u \<le> 0x7F then 1 else if u \<le> 0x7FF then 2 else 3)"

text \<open>
  Modelled from the spec: \<^verbatim>\<open>numCodeUnitsToNumUtf8Bytes\<close> of the missing \<^verbatim>\<open>utils/utf\<close>. It
  counts, for the code units of the text up to the offset \<open>n\<close>, the bytes their code
  points occupy, and returns the running total.
\<close>

fun numCodeUnitsToNumUtf8Bytes :: "jsstring \<Rightarrow> nat \<Rightarrow> nat" where
  "numCodeUnitsToNumUtf8Bytes [] n = 0"
| "numCodeUnitsToNumUtf8Bytes [u] n = (if n = 0 then 0 else numUtf8BytesForCodeUnit u)"
| "numCodeUnitsToNumUtf8Bytes (u # v # vs) n =
     (if n = 0 then 0
      else if isHighSurrogate u \<and> isLowSurrogate v
        then 4 + numCodeUnitsToNumUtf8Bytes vs (n - 2)
        else numUtf8BytesForCodeUnit u + numCodeUnitsToNumUtf8Bytes (v # vs) (n - 1))"

text \<open>
  Modelled from the spec: \<^verbatim>\<open>numUtf8BytesToNumCodeUnits\<close> of the missing \<^verbatim>\<open>utils/utf\<close>, the
  inverse scan. It accumulates the byte cost code point by code point and stops as soon
  as the total reaches or exceeds \<open>b\<close>; a target strictly inside a code point rounds to
  the boundary before that code point.
\<close>

fun numUtf8BytesToNumCodeUnits :: "jsstring \<Rightarrow> nat \<Rightarrow> nat" where
  "numUtf8BytesToNumCodeUnits [] b = 0"
| "numUtf8BytesToNumCodeUnits [u] b =
     (if b = 0 then 0 else if b < numUtf8BytesForCodeUnit u then 0 else 1)"
| "numUtf8BytesToNumCodeUnits (u # v # vs) b =
     (if b = 0 then 0
      else if isHighSurrogate u \<and> isLowSurrogate v
        then (if b < 4 then 0 else 2 + numUtf8BytesToNumCodeUnits vs (b - 4))
        else (if b < numUtf8BytesForCodeUnit u then 0
              else 1 + numUtf8BytesToNumCodeUnits (v # vs) (b - numUtf8BytesForCodeUnit u)))"

text \<open>
  A code-unit offset lies on a code-point boundary of a text when it is 0 or the end of
  one of the text's code points: never between the two halves of a surrogate pair, never
  beyond the end of the text.
\<close>

fun codePointBoundary :: "jsstring \<Rightarrow> nat \<Rightarrow> bool" where
  "codePointBoundary us 0 = True"
| "codePointBoundary [] (Suc n) = False"
| "codePointBoundary [u] (Suc n) = (n = 0)"
| "codePointBoundary (u # v # vs) (Suc n) =
     (if isHighSurrogate u \<and> isLowSurrogate v
        then (case n of 0 \<Rightarrow> False | Suc m \<Rightarrow> codePointBoundary vs m)
        else codePointBoundary (v # vs) n)"

section \<open>The provider\<close>

definition EDITOR_API_KEY :: string where
  "EDITOR_API_KEY = ''d49954eb-cfba-4992-980f-d8fb37f0e942''"

text \<open>
  The enumeration \<^verbatim>\<open>Language\<close> of the generated protocol code is not among the sources;
  its members are numbers here, and \<^verbatim>\<open>UNSPECIFIED\<close> is the protocol's default, 0.
\<close>

definition Language_UNSPECIFIED :: nat where
  "Language_UNSPECIFIED = 0"

text \<open>The \<^verbatim>\<open>??\<close> operator on an optional string.\<close>

definition nullish :: "'a option \<Rightarrow> 'a \<Rightarrow> 'a" where
  "nullish x d = (case x of None \<Rightarrow> d | Some v \<Rightarrow> v)"

text \<open>The constructor: a fresh session id, and a fresh empty array for the field.\<close>

definition new_MonacoCompletionProvider ::
  "env \<Rightarrow> string option \<Rightarrow> number option \<Rightarrow> world \<Rightarrow> MonacoCompletionProvider \<times> world" where
  "new_MonacoCompletionProvider e key thr w =
     (\<lparr>sessionId = ''react-editor-'' @ uuid e,
       otherDocuments = length (heap w),
       apiKey = key,
       multilineModelThreshold = thr\<rparr>,
      w\<lparr>heap := heap w @ [[]]\<rparr>)"

definition getMetadata :: "env \<Rightarrow> MonacoCompletionProvider \<Rightarrow> Metadata" where
  "getMetadata e this =
     \<lparr>ideName = ''web'',
      ideVersion = nullish (getCurrentURL e) ''unknown'',
      extensionName = ''@codeium/react-code-editor'',
      extensionVersion = nullish (getPackageVersion e) ''unknown'',
      metadata_apiKey = nullish (apiKey this) EDITOR_API_KEY,
      metadata_sessionId = sessionId this\<rparr>"

definition getAuthHeader :: "env \<Rightarrow> MonacoCompletionProvider \<Rightarrow> CallOptions" where
  "getAuthHeader e this =
     (let metadata = getMetadata e this
      in \<lparr>headers_Authorization =
            ''Basic '' @ metadata_apiKey metadata @ ''-'' @ metadata_sessionId metadata\<rparr>)"

definition getDocumentInfo :: "env \<Rightarrow> Document \<Rightarrow> Position \<Rightarrow> world \<Rightarrow> DocumentInfo \<times> world" where
  "getDocumentInfo e document position w =
     (let text = getText document;
          numCodeUnits = offsetAt document position;
          offset = numCodeUnitsToNumUtf8Bytes text numCodeUnits;
          lang = languageIdToEnum e (languageId document);
          w1 = (if lang = Language_UNSPECIFIED
                then emit (ConsoleWarn (''Unknown language: '' @ languageId document)) w
                else w)
      in (\<lparr>info_text = text,
           editorLanguage = languageId document,
           language = lang,
           cursorOffset = int offset,
           lineEnding = [CHR 0x0A]\<rparr>, w1))"

definition new_MonacoInlineCompletion :: "string \<Rightarrow> Range \<Rightarrow> string \<Rightarrow> MonacoInlineCompletion" where
  "new_MonacoInlineCompletion txt rng cid =
     \<lparr>insertText = txt,
      inline_text = txt,
      inline_range = rng,
      command = \<lparr>command_id = ''codeium.acceptCompletion'',
                 command_title = ''Accept Completion'',
                 command_arguments = [cid, txt]\<rparr>\<rparr>"

text \<open>\<open>None\<close> is the source's \<^verbatim>\<open>undefined\<close>: the item cannot be mapped.\<close>

definition createInlineCompletionItem ::
  "CompletionItem \<Rightarrow> Document \<Rightarrow> MonacoInlineCompletion option" where
  "createInlineCompletionItem completionItem document =
     (case completion completionItem of
        None \<Rightarrow> None
      | Some c \<Rightarrow>
          (case item_range completionItem of
             None \<Rightarrow> None
           | Some r \<Rightarrow>
               (let text = getText document;
                    startPosition =
                      positionAt document (numUtf8BytesToNumCodeUnits text (startOffset r));
                    endPosition =
                      positionAt document (numUtf8BytesToNumCodeUnits text (endOffset r));
                    rng = \<lparr>range_start = startPosition, range_end = endPosition\<rparr>
                in Some (new_MonacoInlineCompletion (completion_text c) rng (completionId c)))))"

text \<open>
  \<^verbatim>\<open>provideInlineCompletions\<close> up to and including the moment the network call is issued:
  the listeners on the token, the PROCESSING report, the request.
\<close>

definition provideInlineCompletions_issue ::
  "env \<Rightarrow> MonacoCompletionProvider \<Rightarrow> ITextModel \<Rightarrow> MonacoPosition \<Rightarrow> world \<Rightarrow> world" where
  "provideInlineCompletions_issue e this model monacoPosition w0 =
     (let document = model_document model;
          position = fromMonaco e monacoPosition;
          w1 = emit (OnCancellationRequested CancellationCallback) w0;
          w2 = emit (OnCancellationRequested AbortRequest) w1;
          w3 = emit (SetStatus PROCESSING) w2;
          w4 = emit (SetMessage ''Generating completions...'') w3;
          (documentInfo, w5) = getDocumentInfo e document position w4;
          editorOptions = \<lparr>options_tabSize = tabSize model,
                           options_insertSpaces = insertSpaces model\<rparr>;
          includedOtherDocs = otherDocuments this;
          (includedOtherDocs, w6) =
            (if length (heap w5 ! includedOtherDocs) > 10
             then array_slice includedOtherDocs 0 10
                    (emit (ConsoleWarn (''Too many other documents: ''
                             @ show_nat (length (heap w5 ! includedOtherDocs))
                             @ '' (max 10)'')) w5)
             else (includedOtherDocs, w5))
      in emit (GetCompletions
                 \<lparr>request_metadata = getMetadata e this,
                  request_document = documentInfo,
                  request_editorOptions = editorOptions,
                  request_otherDocuments = includedOtherDocs,
                  request_multilineConfig =
                    (case multilineModelThreshold this of
                       None \<Rightarrow> None
                     | Some t \<Rightarrow> if truthy t then Some \<lparr>threshold = t\<rparr> else None)\<rparr>
                 (getAuthHeader e this)) w6)"

text \<open>
  \<^verbatim>\<open>provideInlineCompletions\<close> from the moment the awaited call has settled: the
  \<^verbatim>\<open>catch\<close> block for a rejection (\<open>Inl\<close>), the rest of the body for a response. The
  result \<open>None\<close> is the source's \<^verbatim>\<open>undefined\<close>.
\<close>

definition isCanceled :: "rejection \<Rightarrow> bool" where
  "isCanceled err = (case err of ConnectError c m \<Rightarrow> c = Canceled | OtherRejection m \<Rightarrow> False)"

definition provideInlineCompletions_settled ::
  "Document \<Rightarrow> rejection + GetCompletionsResponse \<Rightarrow> world \<Rightarrow> InlineCompletions option \<times> world" where
  "provideInlineCompletions_settled document settled w =
     (case settled of
        Inl err \<Rightarrow>
          (if isCanceled err then (None, w)
           else (None, emit (SetMessage ''Something went wrong; please try again.'')
                         (emit (SetStatus ERROR) w)))
      | Inr getCompletionsResponse \<Rightarrow>
          (case completionItems getCompletionsResponse of
             None \<Rightarrow>
               (None, emit (SetMessage '' No completions were generated'')
                        (emit (SetStatus SUCCESS) w))
           | Some responseItems \<Rightarrow>
               (let inlineCompletionItems =
                      map the (filter (\<lambda>item. item \<noteq> None)
                        (map (\<lambda>completionItem. createInlineCompletionItem completionItem document)
                           responseItems));
                    w1 = emit (SetStatus SUCCESS) w;
                    message = (if length inlineCompletionItems = 1
                               then ''Generated 1 completion''
                               else ''Generated '' @ show_nat (length inlineCompletionItems)
                                      @ '' completions'')
                in (Some \<lparr>items = inlineCompletionItems\<rparr>, emit (SetMessage message) w1))))"

text \<open>A whole run: issue the call, await its outcome, handle it.\<close>

definition provideInlineCompletions ::
  "env \<Rightarrow> MonacoCompletionProvider \<Rightarrow> ITextModel \<Rightarrow> MonacoPosition
     \<Rightarrow> rejection + GetCompletionsResponse \<Rightarrow> world \<Rightarrow> InlineCompletions option \<times> world" where
  "provideInlineCompletions e this model monacoPosition settled w =
     provideInlineCompletions_settled (model_document model) settled
       (provideInlineCompletions_issue e this model monacoPosition w)"

section \<open>Vocabulary for statements about a run\<close>

text \<open>
  The events a run adds to the trace, the part before the network call and the part after
  it, the statuses reported and the requests issued, each in program order.
\<close>

definition isCall :: "event \<Rightarrow> bool" where
  "isCall ev = (case ev of GetCompletions q opts \<Rightarrow> True | _ \<Rightarrow> False)"

definition run_events :: "world \<Rightarrow> world \<Rightarrow> event list" where
  "run_events w w' = drop (length (trace w)) (trace w')"

definition before_call :: "event list \<Rightarrow> event list" where
  "before_call evs = takeWhile (\<lambda>ev. \<not> isCall ev) evs"

definition after_call :: "event list \<Rightarrow> event list" where
  "after_call evs = tl (dropWhile (\<lambda>ev. \<not> isCall ev) evs)"

fun statuses :: "event list \<Rightarrow> Status list" where
  "statuses [] = []"
| "statuses (SetStatus s # evs) = s # statuses evs"
| "statuses (ev # evs) = statuses evs"

fun issued_requests :: "event list \<Rightarrow> GetCompletionsRequest list" where
  "issued_requests [] = []"
| "issued_requests (GetCompletions q opts # evs) = q # issued_requests evs"
| "issued_requests (ev # evs) = issued_requests evs"

text \<open>The console warnings of a run, all of them emitted before the call.\<close>

definition issue_warnings ::
  "env \<Rightarrow> MonacoCompletionProvider \<Rightarrow> ITextModel \<Rightarrow> world \<Rightarrow> string list" where
  "issue_warnings e this model w =
     (if languageIdToEnum e (languageId (model_document model)) = Language_UNSPECIFIED
      then [''Unknown language: '' @ languageId (model_document model)] else [])
     @ (if length (heap w ! otherDocuments this) > 10
        then [''Too many other documents: ''
               @ show_nat (length (heap w ! otherDocuments this)) @ '' (max 10)'']
        else [])"

text \<open>An item can be mapped when it has both its completion and its range.\<close>

definition mappable :: "CompletionItem \<Rightarrow> bool" where
  "mappable ci = (completion ci \<noteq> None \<and> item_range ci \<noteq> None)"

definition success_message :: "nat \<Rightarrow> string" where
  "success_message k =
     (if k = 1 then ''Generated 1 completion''
      else ''Generated '' @ show_nat k @ '' completions'')"

text \<open>Reading a decimal numeral back, to say what a rendered count denotes.\<close>

definition digit_value :: "char \<Rightarrow> nat" where
  "digit_value c = of_char c - 48"

definition is_digit :: "char \<Rightarrow> bool" where
  "is_digit c = (48 \<le> (of_char c :: nat) \<and> (of_char c :: nat) \<le> 57)"

definition decimal_value :: "string \<Rightarrow> nat" where
  "decimal_value ds = foldl (\<lambda>acc c. 10 * acc + digit_value c) 0 ds"

section \<open>A concrete editor session\<close>

definition example_document :: Document where
  "example_document =
     \<lparr>getText = [0x61, 0x20AC, 0xD83D, 0xDE00, 0x62],
      languageId = ''typescript'',
      offsetAt = (\<lambda>p. pos_character p),
      positionAt = (\<lambda>n. \<lparr>pos_line = 0, pos_character = n\<rparr>)\<rparr>"

definition example_model :: ITextModel where
  "example_model = \<lparr>model_document = example_document, tabSize = 2, insertSpaces = True\<rparr>"

definition example_env :: env where
  "example_env =
     \<lparr>uuid = ''0000'',
      getCurrentURL = None,
      getPackageVersion = Some ''1.0.0'',
      languageIdToEnum = (\<lambda>l. if l = ''typescript'' then 45 else 0),
      fromMonaco = (\<lambda>p. \<lparr>pos_line = lineNumber p - 1, pos_character = column p - 1\<rparr>)\<rparr>"

definition example_position :: MonacoPosition where
  "example_position = \<lparr>lineNumber = 1, column = 3\<rparr>"

definition example_items :: "CompletionItem list" where
  "example_items =
     [\<lparr>completion = Some \<lparr>completion_text = ''foo()'', completionId = ''id-1''\<rparr>,
       item_range = Some \<lparr>startOffset = 1, endOffset = 8\<rparr>\<rparr>,
      \<lparr>completion = Some \<lparr>completion_text = ''bar()'', completionId = ''id-2''\<rparr>,
       item_range = None\<rparr>]"

definition example_provider :: MonacoCompletionProvider where
  "example_provider = fst (new_MonacoCompletionProvider example_env None None \<lparr>heap = [], trace = []\<rparr>)"

definition example_world :: world where
  "example_world = snd (new_MonacoCompletionProvider example_env None None \<lparr>heap = [], trace = []\<rparr>)"

definition example_other_documents :: "nat \<Rightarrow> DocumentInfo list" where
  "example_other_documents n =
     map (\<lambda>i. \<lparr>info_text = [], editorLanguage = ''plaintext'', language = i,
               cursorOffset = 0, lineEnding = [CHR 0x0A]\<rparr>) [0..<n]"

definition example_crowded_world :: world where
  "example_crowded_world = \<lparr>heap = [example_other_documents 15], trace = []\<rparr>"

definition example_threshold_provider :: "number option \<Rightarrow> MonacoCompletionProvider" where
  "example_threshold_provider thr =
     (fst (new_MonacoCompletionProvider example_env None thr \<lparr>heap = [], trace = []\<rparr>))
       \<lparr>otherDocuments := 0\<rparr>"

section \<open>The shape of a run\<close>

lemma trace_emit [simp]: "trace (emit ev w) = trace w @ [ev]"
  by (simp add: emit_def)

lemma heap_emit [simp]: "heap (emit ev w) = heap w"
  by (simp add: emit_def)

lemma not_call_simps [simp]:
  "\<not> isCall (OnCancellationRequested l)" "\<not> isCall (SetStatus s)"
  "\<not> isCall (SetMessage m)" "\<not> isCall (ConsoleWarn m)"
  by (simp_all add: isCall_def)

lemma statuses_append [simp]: "statuses (xs @ ys) = statuses xs @ statuses ys"
  by (induction xs rule: statuses.induct) simp_all

lemma statuses_warns [simp]: "statuses (map ConsoleWarn ms) = []"
  by (induction ms) simp_all

lemma split_at_call:
  assumes "\<forall>ev\<in>set pre. \<not> isCall ev"
  shows "before_call (pre @ GetCompletions q opts # post) = pre"
    and "after_call (pre @ GetCompletions q opts # post) = post"
proof -
  have c: "isCall (GetCompletions q opts)" by (simp add: isCall_def)
  show "before_call (pre @ GetCompletions q opts # post) = pre"
    unfolding before_call_def using assms c by simp
  show "after_call (pre @ GetCompletions q opts # post) = post"
    unfolding after_call_def using assms c by simp
qed

text \<open>Up to the call, a run emits the same events whatever the call's outcome will be.\<close>

lemma issue_trace:
  "\<exists>q opts.
     trace (provideInlineCompletions_issue e this model pos w) =
       trace w @ [OnCancellationRequested CancellationCallback,
                  OnCancellationRequested AbortRequest,
                  SetStatus PROCESSING,
                  SetMessage ''Generating completions...'']
       @ map ConsoleWarn (issue_warnings e this model w)
       @ [GetCompletions q opts]"
  by (simp add: provideInlineCompletions_issue_def getDocumentInfo_def Let_def
        array_slice_def issue_warnings_def)

lemma issue_heap:
  "heap (provideInlineCompletions_issue e this model pos w) =
     (if length (heap w ! otherDocuments this) > 10
      then heap w @ [take 10 (heap w ! otherDocuments this)] else heap w)"
  by (simp add: provideInlineCompletions_issue_def getDocumentInfo_def Let_def array_slice_def)

lemma run_shape:
  assumes "trace w' = trace (provideInlineCompletions_issue e this model pos w) @ post"
  shows "\<exists>q opts. run_events w w' =
           ([OnCancellationRequested CancellationCallback,
             OnCancellationRequested AbortRequest,
             SetStatus PROCESSING,
             SetMessage ''Generating completions...'']
            @ map ConsoleWarn (issue_warnings e this model w))
           @ GetCompletions q opts # post"
proof -
  from issue_trace [of e this model pos w] obtain q opts where
    "trace (provideInlineCompletions_issue e this model pos w) =
       trace w @ [OnCancellationRequested CancellationCallback,
                  OnCancellationRequested AbortRequest,
                  SetStatus PROCESSING,
                  SetMessage ''Generating completions...'']
       @ map ConsoleWarn (issue_warnings e this model w)
       @ [GetCompletions q opts]"
    by blast
  with assms have "run_events w w' =
           ([OnCancellationRequested CancellationCallback,
             OnCancellationRequested AbortRequest,
             SetStatus PROCESSING,
             SetMessage ''Generating completions...'']
            @ map ConsoleWarn (issue_warnings e this model w))
           @ GetCompletions q opts # post"
    by (simp add: run_events_def)
  then show ?thesis by blast
qed

lemma before_call_run:
  assumes "trace w' = trace (provideInlineCompletions_issue e this model pos w) @ post"
  shows "before_call (run_events w w') =
           [OnCancellationRequested CancellationCallback,
             OnCancellationRequested AbortRequest,
             SetStatus PROCESSING,
             SetMessage ''Generating completions...'']
            @ map ConsoleWarn (issue_warnings e this model w)"
proof -
  from run_shape [OF assms] obtain q opts where r: "run_events w w' =
           ([OnCancellationRequested CancellationCallback,
             OnCancellationRequested AbortRequest,
             SetStatus PROCESSING,
             SetMessage ''Generating completions...'']
            @ map ConsoleWarn (issue_warnings e this model w))
           @ GetCompletions q opts # post" by blast
  show ?thesis unfolding r by (rule split_at_call(1)) auto
qed

lemma after_call_run:
  assumes "trace w' = trace (provideInlineCompletions_issue e this model pos w) @ post"
  shows "after_call (run_events w w') = post"
proof -
  from run_shape [OF assms] obtain q opts where r: "run_events w w' =
           ([OnCancellationRequested CancellationCallback,
             OnCancellationRequested AbortRequest,
             SetStatus PROCESSING,
             SetMessage ''Generating completions...'']
            @ map ConsoleWarn (issue_warnings e this model w))
           @ GetCompletions q opts # post" by blast
  show ?thesis unfolding r by (rule split_at_call(2)) auto
qed

lemma settled_cancel:
  "isCanceled err \<Longrightarrow> provideInlineCompletions_settled d (Inl err) w = (None, w)"
  by (simp add: provideInlineCompletions_settled_def)

lemma settled_failure:
  "\<not> isCanceled err \<Longrightarrow> provideInlineCompletions_settled d (Inl err) w =
     (None, emit (SetMessage ''Something went wrong; please try again.'')
              (emit (SetStatus ERROR) w))"
  by (simp add: provideInlineCompletions_settled_def)

lemma settled_absent:
  "completionItems resp = None \<Longrightarrow> provideInlineCompletions_settled d (Inr resp) w =
     (None, emit (SetMessage '' No completions were generated'') (emit (SetStatus SUCCESS) w))"
  by (simp add: provideInlineCompletions_settled_def)

lemma create_None_iff: "createInlineCompletionItem ci d = None \<longleftrightarrow> \<not> mappable ci"
  by (simp add: createInlineCompletionItem_def mappable_def Let_def split: option.splits)

lemma create_Some_iff: "(\<exists>y. createInlineCompletionItem ci d = Some y) \<longleftrightarrow> mappable ci"
  using create_None_iff [of ci d] by auto

lemma surviving_items:
  "map the (filter (\<lambda>item. item \<noteq> None) (map (\<lambda>ci. createInlineCompletionItem ci d) its))
   = map (\<lambda>ci. the (createInlineCompletionItem ci d)) (filter mappable its)"
  by (induction its) (simp_all add: create_Some_iff)

lemma settled_items:
  "completionItems resp = Some its \<Longrightarrow> provideInlineCompletions_settled d (Inr resp) w =
     (Some \<lparr>items = map (\<lambda>ci. the (createInlineCompletionItem ci d)) (filter mappable its)\<rparr>,
      emit (SetMessage (success_message (length (filter mappable its))))
        (emit (SetStatus SUCCESS) w))"
  unfolding provideInlineCompletions_settled_def surviving_items success_message_def
  by (simp add: Let_def)

lemma issued_requests_append [simp]:
  "issued_requests (xs @ ys) = issued_requests xs @ issued_requests ys"
  by (induction xs rule: issued_requests.induct) simp_all

lemma issued_requests_warns [simp]: "issued_requests (map ConsoleWarn ms) = []"
  by (induction ms) simp_all

text \<open>After the call has settled, a run reports at most a terminal status and issues no call.\<close>

lemma settled_trace:
  "\<exists>post. trace (snd (provideInlineCompletions_settled d s w)) = trace w @ post
     \<and> set (statuses post) \<subseteq> {SUCCESS, ERROR} \<and> issued_requests post = []"
proof (cases s)
  case (Inl err)
  then show ?thesis
    by (cases "isCanceled err") (simp_all add: settled_cancel settled_failure)
next
  case (Inr resp)
  then show ?thesis
    by (cases "completionItems resp") (simp_all add: settled_absent settled_items)
qed

lemma create_mappable:
  assumes "completion ci = Some c" and "item_range ci = Some rg"
  shows "createInlineCompletionItem ci d =
     Some \<lparr>insertText = completion_text c,
           inline_text = completion_text c,
           inline_range =
             \<lparr>range_start = positionAt d (numUtf8BytesToNumCodeUnits (getText d) (startOffset rg)),
              range_end = positionAt d (numUtf8BytesToNumCodeUnits (getText d) (endOffset rg))\<rparr>,
           command = \<lparr>command_id = ''codeium.acceptCompletion'',
                      command_title = ''Accept Completion'',
                      command_arguments = [completionId c, completion_text c]\<rparr>\<rparr>"
  using assms
  by (simp add: createInlineCompletionItem_def new_MonacoInlineCompletion_def Let_def)

text \<open>The request a run issues, and what a run does to the store.\<close>

lemma issue_request:
  "\<exists>q opts.
     trace (provideInlineCompletions_issue e this model pos w) =
       trace w @ [OnCancellationRequested CancellationCallback,
                  OnCancellationRequested AbortRequest,
                  SetStatus PROCESSING,
                  SetMessage ''Generating completions...'']
       @ map ConsoleWarn (issue_warnings e this model w)
       @ [GetCompletions q opts]
     \<and> request_otherDocuments q =
         (if length (heap w ! otherDocuments this) > 10 then length (heap w)
          else otherDocuments this)
     \<and> request_multilineConfig q =
         (case multilineModelThreshold this of
            None \<Rightarrow> None
          | Some t \<Rightarrow> if truthy t then Some \<lparr>threshold = t\<rparr> else None)"
  by (simp add: provideInlineCompletions_issue_def getDocumentInfo_def Let_def
        array_slice_def issue_warnings_def)

lemma settled_heap: "heap (snd (provideInlineCompletions_settled d s w)) = heap w"
proof (cases s)
  case (Inl err)
  then show ?thesis
    by (cases "isCanceled err") (simp_all add: settled_cancel settled_failure)
next
  case (Inr resp)
  then show ?thesis
    by (cases "completionItems resp") (simp_all add: settled_absent settled_items)
qed

lemma run_request:
  assumes "provideInlineCompletions e this model pos settled w = (r, w')"
  shows "\<exists>q. issued_requests (run_events w w') = [q]
     \<and> request_otherDocuments q =
         (if length (heap w ! otherDocuments this) > 10 then length (heap w)
          else otherDocuments this)
     \<and> request_multilineConfig q =
         (case multilineModelThreshold this of
            None \<Rightarrow> None
          | Some t \<Rightarrow> if truthy t then Some \<lparr>threshold = t\<rparr> else None)"
proof -
  from settled_trace [of "model_document model" settled
         "provideInlineCompletions_issue e this model pos w"]
  obtain post where
    t: "trace w' = trace (provideInlineCompletions_issue e this model pos w) @ post"
    and rq: "issued_requests post = []"
    using assms by (auto simp: provideInlineCompletions_def)
  from issue_request [of e this model pos w] obtain q opts where
    i: "trace (provideInlineCompletions_issue e this model pos w) =
       trace w @ [OnCancellationRequested CancellationCallback,
                  OnCancellationRequested AbortRequest,
                  SetStatus PROCESSING,
                  SetMessage ''Generating completions...'']
       @ map ConsoleWarn (issue_warnings e this model w)
       @ [GetCompletions q opts]"
    and o: "request_otherDocuments q =
         (if length (heap w ! otherDocuments this) > 10 then length (heap w)
          else otherDocuments this)"
    and m: "request_multilineConfig q =
         (case multilineModelThreshold this of
            None \<Rightarrow> None
          | Some t \<Rightarrow> if truthy t then Some \<lparr>threshold = t\<rparr> else None)"
    by blast
  have "issued_requests (run_events w w') = [q]"
    by (simp add: run_events_def t i rq)
  with o m show ?thesis by blast
qed

lemma run_heap:
  assumes "provideInlineCompletions e this model pos settled w = (r, w')"
  shows "heap w' =
     (if length (heap w ! otherDocuments this) > 10
      then heap w @ [take 10 (heap w ! otherDocuments this)] else heap w)"
proof -
  from assms have "w' = snd (provideInlineCompletions_settled (model_document model) settled
      (provideInlineCompletions_issue e this model pos w))"
    by (simp add: provideInlineCompletions_def)
  then show ?thesis by (simp only: settled_heap issue_heap)
qed

section \<open>Decimal rendering\<close>

lemma digit_value_digit_char: "d < 10 \<Longrightarrow> digit_value (digit_char d) = d"
  by (simp add: digit_value_def digit_char_def)

lemma is_digit_digit_char: "d < 10 \<Longrightarrow> is_digit (digit_char d)"
  by (simp add: is_digit_def digit_char_def)

lemma decimal_value_show_nat: "decimal_value (show_nat n) = n"
proof (induction n rule: show_nat.induct)
  case (1 n)
  show ?case
  proof (cases "n < 10")
    case True
    then show ?thesis
      by (simp add: show_nat.simps [of n] decimal_value_def digit_value_digit_char)
  next
    case False
    with 1 have "decimal_value (show_nat (n div 10)) = n div 10" by simp
    with False show ?thesis
      by (simp add: show_nat.simps [of n] decimal_value_def digit_value_digit_char)
  qed
qed

lemma digits_show_nat: "list_all is_digit (show_nat n)"
proof (induction n rule: show_nat.induct)
  case (1 n)
  then show ?case
    by (cases "n < 10") (simp_all add: show_nat.simps [of n] is_digit_digit_char)
qed

section \<open>Cancellation\<close>

text \<open>
  Claim C2. When the network call rejects with the cancellation indication (a
  \<^verbatim>\<open>ConnectError\<close> whose code is \<^verbatim>\<open>Code.Canceled\<close>), the run returns \<^verbatim>\<open>undefined\<close>, the
  rejection is consumed by the \<^verbatim>\<open>catch\<close> block, nothing at all is reported after the call,
  the only status of the whole run is the PROCESSING reported before the call, and ERROR
  is never reported.
\<close>

theorem cancellation_is_silent:
  assumes "settled = Inl (ConnectError Canceled m)"
    and "provideInlineCompletions e this model pos settled w = (r, w')"
  shows "r = None \<and> after_call (run_events w w') = []
         \<and> statuses (run_events w w') = [PROCESSING]
         \<and> SetStatus ERROR \<notin> set (run_events w w')"
proof -
  have c: "isCanceled (ConnectError Canceled m)" by (simp add: isCanceled_def)
  from assms have r: "r = None"
    and w': "w' = provideInlineCompletions_issue e this model pos w"
    by (simp_all add: provideInlineCompletions_def settled_cancel [OF c])
  have t: "trace w' = trace (provideInlineCompletions_issue e this model pos w) @ []"
    by (simp add: w')
  from run_shape [OF t] obtain q opts where s: "run_events w w' =
           ([OnCancellationRequested CancellationCallback,
             OnCancellationRequested AbortRequest,
             SetStatus PROCESSING,
             SetMessage ''Generating completions...'']
            @ map ConsoleWarn (issue_warnings e this model w))
           @ GetCompletions q opts # []" by blast
  have "statuses (run_events w w') = [PROCESSING]" unfolding s by simp
  moreover have "SetStatus ERROR \<notin> set (run_events w w')" unfolding s by auto
  ultimately show ?thesis using r after_call_run [OF t] by simp
qed

theorem cancellation_is_silent_witness:
  "fst (provideInlineCompletions example_env example_provider example_model example_position
          (Inl (ConnectError Canceled ''aborted'')) example_world) = None
   \<and> after_call (run_events example_world
        (snd (provideInlineCompletions example_env example_provider example_model
                example_position (Inl (ConnectError Canceled ''aborted'')) example_world))) = []
   \<and> statuses (run_events example_world
        (snd (provideInlineCompletions example_env example_provider example_model
                example_position (Inl (ConnectError Canceled ''aborted'')) example_world)))
       = [PROCESSING]
   \<and> SetStatus ERROR \<notin> set (run_events example_world
        (snd (provideInlineCompletions example_env example_provider example_model
                example_position (Inl (ConnectError Canceled ''aborted'')) example_world)))"
  by (rule cancellation_is_silent [OF refl surjective_pairing])

section \<open>Failure of the network call\<close>

text \<open>
  Claim C5. When the network call rejects with anything but the cancellation indication,
  the run returns \<^verbatim>\<open>undefined\<close> and reports, after the call, status ERROR followed by the
  fixed message \<^verbatim>\<open>Something went wrong; please try again.\<close>. The cause is not surfaced:
  every other non-cancellation rejection gives the same result and the same events.
\<close>

theorem failure_reports_generic_error:
  assumes "settled = Inl err" and "\<not> isCanceled err"
    and "provideInlineCompletions e this model pos settled w = (r, w')"
  shows "r = None
     \<and> after_call (run_events w w') =
         [SetStatus ERROR, SetMessage ''Something went wrong; please try again.'']
     \<and> (\<forall>err'. \<not> isCanceled err' \<longrightarrow>
           provideInlineCompletions e this model pos (Inl err') w = (r, w'))"
proof -
  from assms have r: "r = None"
    and w': "w' = emit (SetMessage ''Something went wrong; please try again.'')
              (emit (SetStatus ERROR) (provideInlineCompletions_issue e this model pos w))"
    by (simp_all add: provideInlineCompletions_def settled_failure)
  have t: "trace w' = trace (provideInlineCompletions_issue e this model pos w)
             @ [SetStatus ERROR, SetMessage ''Something went wrong; please try again.'']"
    by (simp add: w')
  have "provideInlineCompletions e this model pos (Inl err') w = (r, w')"
    if "\<not> isCanceled err'" for err'
    using that by (simp add: provideInlineCompletions_def settled_failure r w')
  then show ?thesis using r after_call_run [OF t] by simp
qed

theorem failure_reports_generic_error_witness:
  "fst (provideInlineCompletions example_env example_provider example_model example_position
          (Inl (ConnectError Unavailable ''connection refused'')) example_world) = None
   \<and> after_call (run_events example_world
        (snd (provideInlineCompletions example_env example_provider example_model
                example_position (Inl (ConnectError Unavailable ''connection refused''))
                example_world)))
       = [SetStatus ERROR, SetMessage ''Something went wrong; please try again.'']
   \<and> provideInlineCompletions example_env example_provider example_model example_position
          (Inl (OtherRejection ''TypeError'')) example_world
       = provideInlineCompletions example_env example_provider example_model example_position
          (Inl (ConnectError Unavailable ''connection refused'')) example_world"
proof -
  have a: "\<not> isCanceled (ConnectError Unavailable ''connection refused'')"
    by (simp add: isCanceled_def)
  have b: "\<not> isCanceled (OtherRejection ''TypeError'')"
    by (simp add: isCanceled_def)
  from failure_reports_generic_error [OF refl a surjective_pairing] b
  show ?thesis by simp
qed

section \<open>Order of the status reports\<close>

text \<open>
  Claim C8. A run has two phases. The first runs up to the point where the function
  suspends on the network call; it cannot depend on the call's outcome, which it does not
  take. Its events are the two listeners on the token, status PROCESSING, the message
  \<^verbatim>\<open>Generating completions...\<close>, at most console warnings, and last of all the one network
  call: PROCESSING is reported strictly before the call is issued, and no other status is
  reported in this phase. The second phase is the continuation that receives the settled
  outcome of the call; everything else a run emits comes from it, it issues no call, and
  every status it reports is SUCCESS or ERROR. So a terminal status is reported only
  after the call has settled.
\<close>

theorem processing_before_call_terminal_after:
  assumes "wi = provideInlineCompletions_issue e this model pos w"
    and "provideInlineCompletions e this model pos settled w = (r, w')"
  shows "(\<exists>q opts. run_events w wi =
            [OnCancellationRequested CancellationCallback,
             OnCancellationRequested AbortRequest,
             SetStatus PROCESSING,
             SetMessage ''Generating completions...'']
            @ map ConsoleWarn (issue_warnings e this model w)
            @ [GetCompletions q opts])
     \<and> statuses (run_events w wi) = [PROCESSING]
     \<and> length (issued_requests (run_events w wi)) = 1
     \<and> isCall (last (run_events w wi))
     \<and> provideInlineCompletions_settled (model_document model) settled wi = (r, w')
     \<and> run_events w w' = run_events w wi @ run_events wi w'
     \<and> set (statuses (run_events wi w')) \<subseteq> {SUCCESS, ERROR}
     \<and> issued_requests (run_events wi w') = []
     \<and> after_call (run_events w w') = run_events wi w'
     \<and> before_call (run_events w w') =
          [OnCancellationRequested CancellationCallback,
           OnCancellationRequested AbortRequest,
           SetStatus PROCESSING,
           SetMessage ''Generating completions...'']
          @ map ConsoleWarn (issue_warnings e this model w)
     \<and> statuses (before_call (run_events w w')) = [PROCESSING]
     \<and> SUCCESS \<notin> set (statuses (before_call (run_events w w')))
     \<and> ERROR \<notin> set (statuses (before_call (run_events w w')))
     \<and> set (statuses (after_call (run_events w w'))) \<subseteq> {SUCCESS, ERROR}
     \<and> statuses (run_events w w') = PROCESSING # statuses (after_call (run_events w w'))"
proof -
  have s: "provideInlineCompletions_settled (model_document model) settled wi = (r, w')"
    using assms by (simp add: provideInlineCompletions_def)
  from settled_trace [of "model_document model" settled wi] s
  obtain post where
    t: "trace w' = trace wi @ post"
    and st: "set (statuses post) \<subseteq> {SUCCESS, ERROR}"
    and rq: "issued_requests post = []"
    by auto
  have p: "run_events wi w' = post"
    by (simp add: run_events_def t)
  from issue_trace [of e this model pos w] obtain q opts where
    i: "trace wi = trace w @ [OnCancellationRequested CancellationCallback,
                  OnCancellationRequested AbortRequest,
                  SetStatus PROCESSING,
                  SetMessage ''Generating completions...'']
       @ map ConsoleWarn (issue_warnings e this model w)
       @ [GetCompletions q opts]"
    unfolding assms(1) by blast
  have ri: "run_events w wi =
            [OnCancellationRequested CancellationCallback,
             OnCancellationRequested AbortRequest,
             SetStatus PROCESSING,
             SetMessage ''Generating completions...'']
            @ map ConsoleWarn (issue_warnings e this model w)
            @ [GetCompletions q opts]"
    by (simp add: run_events_def i)
  have c1: "\<exists>q opts. run_events w wi =
            [OnCancellationRequested CancellationCallback,
             OnCancellationRequested AbortRequest,
             SetStatus PROCESSING,
             SetMessage ''Generating completions...'']
            @ map ConsoleWarn (issue_warnings e this model w)
            @ [GetCompletions q opts]"
    using ri by blast
  have c2: "statuses (run_events w wi) = [PROCESSING]"
    unfolding ri by simp
  have c3: "length (issued_requests (run_events w wi)) = 1"
    unfolding ri by simp
  have c4: "isCall (last (run_events w wi))"
    unfolding ri by (simp add: isCall_def)
  have c6: "run_events w w' = run_events w wi @ run_events wi w'"
    unfolding p by (simp add: run_events_def t i)
  have t': "trace w' = trace (provideInlineCompletions_issue e this model pos w) @ post"
    using t by (simp add: assms(1))
  have a: "after_call (run_events w w') = run_events wi w'"
    unfolding p by (rule after_call_run [OF t'])
  have b: "before_call (run_events w w') =
          [OnCancellationRequested CancellationCallback,
           OnCancellationRequested AbortRequest,
           SetStatus PROCESSING,
           SetMessage ''Generating completions...'']
          @ map ConsoleWarn (issue_warnings e this model w)"
    by (rule before_call_run [OF t'])
  have sb: "statuses (before_call (run_events w w')) = [PROCESSING]"
    unfolding b by simp
  have sa: "statuses (run_events w w') = PROCESSING # statuses (after_call (run_events w w'))"
    unfolding a unfolding c6 by (simp add: c2)
  have c7: "set (statuses (run_events wi w')) \<subseteq> {SUCCESS, ERROR}"
    unfolding p by (rule st)
  have c8: "issued_requests (run_events wi w') = []"
    unfolding p by (rule rq)
  have c7': "set (statuses (after_call (run_events w w'))) \<subseteq> {SUCCESS, ERROR}"
    unfolding a by (rule c7)
  have n1: "SUCCESS \<notin> set (statuses (before_call (run_events w w')))"
    unfolding sb by simp
  have n2: "ERROR \<notin> set (statuses (before_call (run_events w w')))"
    unfolding sb by simp
  from c1 c2 c3 c4 s c6 c7 c8 a b sb n1 n2 c7' sa show ?thesis
    by (intro conjI)
qed

theorem processing_before_call_terminal_after_witness:
  "statuses (run_events example_world
        (provideInlineCompletions_issue example_env example_provider example_model
           example_position example_world)) = [PROCESSING]
   \<and> isCall (last (run_events example_world
        (provideInlineCompletions_issue example_env example_provider example_model
           example_position example_world)))
   \<and> statuses (run_events
        (provideInlineCompletions_issue example_env example_provider example_model
           example_position example_world)
        (snd (provideInlineCompletions example_env example_provider example_model
                example_position (Inr \<lparr>completionItems = Some example_items\<rparr>)
                example_world))) = [SUCCESS]
   \<and> before_call (run_events example_world
        (snd (provideInlineCompletions example_env example_provider example_model
                example_position (Inr \<lparr>completionItems = Some example_items\<rparr>)
                example_world)))
       = [OnCancellationRequested CancellationCallback,
          OnCancellationRequested AbortRequest,
          SetStatus PROCESSING,
          SetMessage ''Generating completions...'']
   \<and> statuses (run_events example_world
        (snd (provideInlineCompletions example_env example_provider example_model
                example_position (Inr \<lparr>completionItems = Some example_items\<rparr>)
                example_world)))
       = [PROCESSING, SUCCESS]"
proof -
  have i: "issue_warnings example_env example_provider example_model example_world = []"
    by code_simp
  have a: "statuses (run_events
        (provideInlineCompletions_issue example_env example_provider example_model
           example_position example_world)
        (snd (provideInlineCompletions example_env example_provider example_model
                example_position (Inr \<lparr>completionItems = Some example_items\<rparr>)
                example_world))) = [SUCCESS]"
    by code_simp
  note T = processing_before_call_terminal_after [OF refl surjective_pairing,
         where e = example_env and this = example_provider and model = example_model
           and pos = example_position and w = example_world
           and settled = "Inr \<lparr>completionItems = Some example_items\<rparr>"]
  from T have c1: "statuses (run_events example_world
        (provideInlineCompletions_issue example_env example_provider example_model
           example_position example_world)) = [PROCESSING]"
    by (elim conjE)
  from T have c2: "isCall (last (run_events example_world
        (provideInlineCompletions_issue example_env example_provider example_model
           example_position example_world)))"
    by (elim conjE)
  from T have c3: "before_call (run_events example_world
        (snd (provideInlineCompletions example_env example_provider example_model
                example_position (Inr \<lparr>completionItems = Some example_items\<rparr>)
                example_world)))
       = [OnCancellationRequested CancellationCallback,
          OnCancellationRequested AbortRequest,
          SetStatus PROCESSING,
          SetMessage ''Generating completions...'']"
    by (elim conjE) (simp add: i)
  from T have "statuses (run_events example_world
        (snd (provideInlineCompletions example_env example_provider example_model
                example_position (Inr \<lparr>completionItems = Some example_items\<rparr>)
                example_world)))
       = PROCESSING # statuses (run_events
        (provideInlineCompletions_issue example_env example_provider example_model
           example_position example_world)
        (snd (provideInlineCompletions example_env example_provider example_model
                example_position (Inr \<lparr>completionItems = Some example_items\<rparr>)
                example_world)))"
    by (elim conjE) (simp only:)
  then have c4: "statuses (run_events example_world
        (snd (provideInlineCompletions example_env example_provider example_model
                example_position (Inr \<lparr>completionItems = Some example_items\<rparr>)
                example_world)))
       = [PROCESSING, SUCCESS]"
    by (simp only: a)
  from c1 c2 a c3 c4 show ?thesis by (intro conjI)
qed

section \<open>Responses without items\<close>

text \<open>
  For a response whose item collection is absent, the run returns \<^verbatim>\<open>undefined\<close> and
  reports, after the call, SUCCESS and the message \<^verbatim>\<open> No completions were generated\<close>.
\<close>

lemma absent_collection:
  assumes "completionItems resp = None"
    and "provideInlineCompletions e this model pos (Inr resp) w = (r, w')"
  shows "r = None
     \<and> after_call (run_events w w') =
          [SetStatus SUCCESS, SetMessage '' No completions were generated'']"
proof -
  from assms(2) have "r = None"
    by (simp add: provideInlineCompletions_def settled_absent [OF assms(1)])
  moreover
  from assms(2) have "trace w' = trace (provideInlineCompletions_issue e this model pos w)
      @ [SetStatus SUCCESS, SetMessage '' No completions were generated'']"
    by (auto simp: provideInlineCompletions_def settled_absent [OF assms(1)])
  then have "after_call (run_events w w') =
      [SetStatus SUCCESS, SetMessage '' No completions were generated'']"
    by (rule after_call_run)
  ultimately show ?thesis by simp
qed

text \<open>
  Claim C1 says that a response without items, whether its collection is absent or holds
  zero items, yields SUCCESS, a no-completions message and \<^verbatim>\<open>undefined\<close>. The code does
  this for an absent collection only. The guard tests the collection for truthiness and
  an empty array is truthy, so at a response with zero items the run misses its own
  \<^verbatim>\<open> No completions were generated\<close> branch: it returns an object with an empty item
  list, not \<^verbatim>\<open>undefined\<close>, and the message is \<^verbatim>\<open>Generated 0 completions\<close>.
\<close>

theorem empty_collection_misses_no_completions_branch:
  "fst (provideInlineCompletions example_env example_provider example_model example_position
          (Inr \<lparr>completionItems = Some []\<rparr>) example_world) = Some \<lparr>items = []\<rparr>
   \<and> fst (provideInlineCompletions example_env example_provider example_model example_position
          (Inr \<lparr>completionItems = Some []\<rparr>) example_world) \<noteq> None
   \<and> after_call (run_events example_world
        (snd (provideInlineCompletions example_env example_provider example_model
                example_position (Inr \<lparr>completionItems = Some []\<rparr>) example_world)))
       = [SetStatus SUCCESS, SetMessage ''Generated 0 completions'']
   \<and> SetMessage '' No completions were generated''
       \<notin> set (run_events example_world
        (snd (provideInlineCompletions example_env example_provider example_model
                example_position (Inr \<lparr>completionItems = Some []\<rparr>) example_world)))"
  by code_simp

section \<open>Mapping the items of a response\<close>

text \<open>
  Claim C4. For a response with at least one item, the run returns a result. Every item
  that lacks its completion (the part holding the text) or its range maps to \<^verbatim>\<open>undefined\<close>
  and is dropped; every other item is mapped, with its text as the text to insert, its
  identifier and text as the arguments of the accept command and its byte range translated
  to editor positions, and is returned. The returned list holds exactly the mapped items,
  in the order of the response.
\<close>

theorem malformed_items_are_dropped:
  assumes "completionItems resp = Some its" and "its \<noteq> []"
    and "provideInlineCompletions e this model pos (Inr resp) w = (r, w')"
  shows "\<exists>res. r = Some res
     \<and> items res = map (\<lambda>ci. the (createInlineCompletionItem ci (model_document model)))
                      (filter (\<lambda>ci. completion ci \<noteq> None \<and> item_range ci \<noteq> None) its)
     \<and> (\<forall>ci\<in>set its. completion ci = None \<or> item_range ci = None \<longrightarrow>
           createInlineCompletionItem ci (model_document model) = None)
     \<and> (\<forall>ci\<in>set its. \<forall>c rg. completion ci = Some c \<and> item_range ci = Some rg \<longrightarrow>
           (\<exists>x. createInlineCompletionItem ci (model_document model) = Some x
              \<and> x \<in> set (items res)
              \<and> insertText x = completion_text c
              \<and> command_arguments (command x) = [completionId c, completion_text c]
              \<and> inline_range x =
                  \<lparr>range_start = positionAt (model_document model)
                     (numUtf8BytesToNumCodeUnits (getText (model_document model)) (startOffset rg)),
                   range_end = positionAt (model_document model)
                     (numUtf8BytesToNumCodeUnits (getText (model_document model)) (endOffset rg))\<rparr>))"
proof -
  let ?d = "model_document model"
  let ?res = "\<lparr>items = map (\<lambda>ci. the (createInlineCompletionItem ci ?d)) (filter mappable its)\<rparr>"
  from assms(3) have r: "r = Some ?res"
    by (auto simp: provideInlineCompletions_def settled_items [OF assms(1)])
  have m: "mappable = (\<lambda>ci. completion ci \<noteq> None \<and> item_range ci \<noteq> None)"
    by (simp add: mappable_def fun_eq_iff)
  have bad: "createInlineCompletionItem ci ?d = None"
    if "completion ci = None \<or> item_range ci = None" for ci
    using that by (auto simp: create_None_iff mappable_def)
  have good: "\<exists>x. createInlineCompletionItem ci ?d = Some x
              \<and> x \<in> set (items ?res)
              \<and> insertText x = completion_text c
              \<and> command_arguments (command x) = [completionId c, completion_text c]
              \<and> inline_range x =
                  \<lparr>range_start = positionAt ?d
                     (numUtf8BytesToNumCodeUnits (getText ?d) (startOffset rg)),
                   range_end = positionAt ?d
                     (numUtf8BytesToNumCodeUnits (getText ?d) (endOffset rg))\<rparr>"
    if "ci \<in> set its" and "completion ci = Some c" and "item_range ci = Some rg" for ci c rg
  proof -
    from that have "mappable ci" by (simp add: mappable_def)
    with that(1) have "the (createInlineCompletionItem ci ?d) \<in> set (items ?res)"
      by simp
    with create_mappable [OF that(2) that(3), of ?d] show ?thesis by simp
  qed
  show ?thesis
    unfolding r using bad good by (auto simp: m)
qed

theorem malformed_items_are_dropped_witness:
  "items (the (fst (provideInlineCompletions example_env example_provider example_model
                      example_position (Inr \<lparr>completionItems = Some example_items\<rparr>)
                      example_world)))
     = [\<lparr>insertText = ''foo()'', inline_text = ''foo()'',
         inline_range = \<lparr>range_start = \<lparr>pos_line = 0, pos_character = 1\<rparr>,
                         range_end = \<lparr>pos_line = 0, pos_character = 4\<rparr>\<rparr>,
         command = \<lparr>command_id = ''codeium.acceptCompletion'',
                    command_title = ''Accept Completion'',
                    command_arguments = [''id-1'', ''foo()'']\<rparr>\<rparr>]
   \<and> length example_items = 2
   \<and> item_range (example_items ! 1) = None"
proof -
  have n: "example_items \<noteq> []" by (simp add: example_items_def)
  have c: "completionItems \<lparr>completionItems = Some example_items\<rparr> = Some example_items"
    by simp
  from malformed_items_are_dropped [OF c n surjective_pairing,
         where e = example_env and this = example_provider and model = example_model
           and pos = example_position and w = example_world]
  obtain res where r: "fst (provideInlineCompletions example_env example_provider example_model
                      example_position (Inr \<lparr>completionItems = Some example_items\<rparr>)
                      example_world) = Some res"
    and i: "items res = map (\<lambda>ci. the (createInlineCompletionItem ci (model_document example_model)))
                      (filter (\<lambda>ci. completion ci \<noteq> None \<and> item_range ci \<noteq> None) example_items)"
    by blast
  have "map (\<lambda>ci. the (createInlineCompletionItem ci (model_document example_model)))
          (filter (\<lambda>ci. completion ci \<noteq> None \<and> item_range ci \<noteq> None) example_items)
     = [\<lparr>insertText = ''foo()'', inline_text = ''foo()'',
         inline_range = \<lparr>range_start = \<lparr>pos_line = 0, pos_character = 1\<rparr>,
                         range_end = \<lparr>pos_line = 0, pos_character = 4\<rparr>\<rparr>,
         command = \<lparr>command_id = ''codeium.acceptCompletion'',
                    command_title = ''Accept Completion'',
                    command_arguments = [''id-1'', ''foo()'']\<rparr>\<rparr>]"
    by code_simp
  with r i show ?thesis by (simp add: example_items_def)
qed

section \<open>The success message\<close>

text \<open>
  Claim C6. For a response with an item collection, the run reports SUCCESS and then one
  message. With exactly one surviving item the message is \<^verbatim>\<open>Generated 1 completion\<close>; with any
  other number \<open>k\<close> of surviving items it is \<^verbatim>\<open>Generated k completions\<close>, where \<open>k\<close> is
  written in decimal digits.
\<close>

theorem success_message_counts_survivors:
  assumes "completionItems resp = Some its"
    and "provideInlineCompletions e this model pos (Inr resp) w = (r, w')"
  shows "\<exists>res msg. r = Some res
     \<and> length (items res) = length (filter mappable its)
     \<and> after_call (run_events w w') = [SetStatus SUCCESS, SetMessage msg]
     \<and> (length (items res) = 1 \<longrightarrow> msg = ''Generated 1 completion'')
     \<and> (length (items res) \<noteq> 1 \<longrightarrow>
          msg = ''Generated '' @ show_nat (length (items res)) @ '' completions''
        \<and> list_all is_digit (show_nat (length (items res)))
        \<and> decimal_value (show_nat (length (items res))) = length (items res))"
proof -
  let ?k = "length (filter mappable its)"
  let ?res = "\<lparr>items = map (\<lambda>ci. the (createInlineCompletionItem ci (model_document model)))
                         (filter mappable its)\<rparr>"
  from assms(2) have r: "r = Some ?res"
    and w': "w' = emit (SetMessage (success_message ?k))
                    (emit (SetStatus SUCCESS) (provideInlineCompletions_issue e this model pos w))"
    by (auto simp: provideInlineCompletions_def settled_items [OF assms(1)])
  have "trace w' = trace (provideInlineCompletions_issue e this model pos w)
          @ [SetStatus SUCCESS, SetMessage (success_message ?k)]"
    by (simp add: w')
  then have a: "after_call (run_events w w') = [SetStatus SUCCESS, SetMessage (success_message ?k)]"
    by (rule after_call_run)
  have k: "length (items ?res) = ?k" by simp
  show ?thesis
    unfolding r using a k
    by (simp add: success_message_def digits_show_nat decimal_value_show_nat)
qed

theorem success_message_counts_survivors_witness:
  "after_call (run_events example_world
        (snd (provideInlineCompletions example_env example_provider example_model
                example_position (Inr \<lparr>completionItems = Some example_items\<rparr>) example_world)))
     = [SetStatus SUCCESS, SetMessage ''Generated 1 completion'']
   \<and> after_call (run_events example_world
        (snd (provideInlineCompletions example_env example_provider example_model
                example_position
                (Inr \<lparr>completionItems = Some [hd example_items, hd example_items]\<rparr>)
                example_world)))
     = [SetStatus SUCCESS, SetMessage ''Generated 2 completions'']"
proof -
  have c1: "completionItems \<lparr>completionItems = Some example_items\<rparr> = Some example_items"
    by simp
  have c2: "completionItems \<lparr>completionItems = Some [hd example_items, hd example_items]\<rparr>
              = Some [hd example_items, hd example_items]"
    by simp
  have k1: "length (filter mappable example_items) = 1" by code_simp
  have k2: "length (filter mappable [hd example_items, hd example_items]) = 2" by code_simp
  have s2: "show_nat 2 = ''2''" by code_simp
  from success_message_counts_survivors [OF c1 surjective_pairing,
         where e = example_env and this = example_provider and model = example_model
           and pos = example_position and w = example_world] k1
  have "after_call (run_events example_world
        (snd (provideInlineCompletions example_env example_provider example_model
                example_position (Inr \<lparr>completionItems = Some example_items\<rparr>) example_world)))
     = [SetStatus SUCCESS, SetMessage ''Generated 1 completion'']"
    by auto
  moreover
  from success_message_counts_survivors [OF c2 surjective_pairing,
         where e = example_env and this = example_provider and model = example_model
           and pos = example_position and w = example_world] k2 s2
  have "after_call (run_events example_world
        (snd (provideInlineCompletions example_env example_provider example_model
                example_position
                (Inr \<lparr>completionItems = Some [hd example_items, hd example_items]\<rparr>)
                example_world)))
     = [SetStatus SUCCESS, SetMessage ''Generated 2 completions'']"
    by auto
  ultimately show ?thesis by simp
qed

section \<open>Auxiliary documents\<close>

text \<open>
  Claim C3. Every run issues one request, and the array of auxiliary documents that the
  request refers to holds the first 10 documents of the provider's list, in their order
  (the whole list when it has at most 10): never more than 10. When the provider's list
  has more than 10 documents, the run also emits the warning
  \<^verbatim>\<open>Too many other documents: n (max 10)\<close> before the call; the call is issued all the same.
\<close>

theorem auxiliary_documents_capped:
  assumes "otherDocuments this < length (heap w)"
    and "provideInlineCompletions e this model pos settled w = (r, w')"
  shows "\<exists>q. issued_requests (run_events w w') = [q]
     \<and> length (heap w' ! request_otherDocuments q) \<le> 10
     \<and> heap w' ! request_otherDocuments q = take 10 (heap w ! otherDocuments this)
     \<and> (10 < length (heap w ! otherDocuments this) \<longrightarrow>
          ConsoleWarn (''Too many other documents: ''
                        @ show_nat (length (heap w ! otherDocuments this)) @ '' (max 10)'')
            \<in> set (before_call (run_events w w')))"
proof -
  from run_request [OF assms(2)] obtain q where
    q: "issued_requests (run_events w w') = [q]"
    and o: "request_otherDocuments q =
         (if length (heap w ! otherDocuments this) > 10 then length (heap w)
          else otherDocuments this)"
    by blast
  note h = run_heap [OF assms(2)]
  have c: "heap w' ! request_otherDocuments q = take 10 (heap w ! otherDocuments this)"
    using assms(1) by (simp add: o h)
  from settled_trace [of "model_document model" settled
         "provideInlineCompletions_issue e this model pos w"]
  obtain post where
    t: "trace w' = trace (provideInlineCompletions_issue e this model pos w) @ post"
    using assms(2) by (auto simp: provideInlineCompletions_def)
  have b: "ConsoleWarn (''Too many other documents: ''
                        @ show_nat (length (heap w ! otherDocuments this)) @ '' (max 10)'')
            \<in> set (before_call (run_events w w'))"
    if "10 < length (heap w ! otherDocuments this)"
    unfolding before_call_run [OF t] using that by (simp add: issue_warnings_def)
  from q c b show ?thesis by simp
qed

theorem auxiliary_documents_capped_witness:
  "length (heap example_crowded_world ! otherDocuments example_provider) = 15
   \<and> heap (snd (provideInlineCompletions example_env example_provider example_model
                  example_position (Inr \<lparr>completionItems = None\<rparr>) example_crowded_world))
       ! request_otherDocuments (hd (issued_requests (run_events example_crowded_world
           (snd (provideInlineCompletions example_env example_provider example_model
                  example_position (Inr \<lparr>completionItems = None\<rparr>) example_crowded_world)))))
     = example_other_documents 10
   \<and> ConsoleWarn ''Too many other documents: 15 (max 10)''
       \<in> set (before_call (run_events example_crowded_world
           (snd (provideInlineCompletions example_env example_provider example_model
                  example_position (Inr \<lparr>completionItems = None\<rparr>) example_crowded_world))))"
proof -
  have l: "otherDocuments example_provider < length (heap example_crowded_world)"
    by code_simp
  have n: "length (heap example_crowded_world ! otherDocuments example_provider) = 15"
    by code_simp
  have t: "take 10 (heap example_crowded_world ! otherDocuments example_provider)
             = example_other_documents 10"
    by code_simp
  have s: "show_nat 15 = ''15''" by code_simp
  from auxiliary_documents_capped [OF l surjective_pairing,
         where e = example_env and model = example_model and pos = example_position
           and settled = "Inr \<lparr>completionItems = None\<rparr>"]
  show ?thesis by (auto simp: n t s)
qed

text \<open>
  Claim C9. A run leaves the provider's list of auxiliary documents as it was: the array
  the \<^verbatim>\<open>otherDocuments\<close> field refers to holds the same documents in the same order after
  the run, and so does every other array that existed before it. When the list has more
  than 10 documents, the request refers to a new array, not to the provider's.
\<close>

theorem otherDocuments_not_mutated:
  assumes "otherDocuments this < length (heap w)"
    and "provideInlineCompletions e this model pos settled w = (r, w')"
  shows "heap w' ! otherDocuments this = heap w ! otherDocuments this
     \<and> take (length (heap w)) (heap w') = heap w
     \<and> (10 < length (heap w ! otherDocuments this) \<longrightarrow>
          (\<exists>q. issued_requests (run_events w w') = [q]
             \<and> request_otherDocuments q \<noteq> otherDocuments this
             \<and> length (heap w' ! otherDocuments this) = length (heap w ! otherDocuments this)))"
proof -
  from run_request [OF assms(2)] obtain q where
    q: "issued_requests (run_events w w') = [q]"
    and o: "request_otherDocuments q =
         (if length (heap w ! otherDocuments this) > 10 then length (heap w)
          else otherDocuments this)"
    by blast
  note h = run_heap [OF assms(2)]
  have a: "heap w' ! otherDocuments this = heap w ! otherDocuments this"
    using assms(1) by (simp add: h nth_append)
  have b: "take (length (heap w)) (heap w') = heap w"
    by (simp add: h)
  have c: "request_otherDocuments q \<noteq> otherDocuments this"
    if "10 < length (heap w ! otherDocuments this)"
    using that assms(1) by (simp add: o)
  from a b c q show ?thesis by simp
qed

theorem otherDocuments_not_mutated_witness:
  "heap (snd (provideInlineCompletions example_env example_provider example_model
                  example_position (Inr \<lparr>completionItems = None\<rparr>) example_crowded_world))
       ! otherDocuments example_provider
     = example_other_documents 15
   \<and> request_otherDocuments (hd (issued_requests (run_events example_crowded_world
           (snd (provideInlineCompletions example_env example_provider example_model
                  example_position (Inr \<lparr>completionItems = None\<rparr>) example_crowded_world)))))
     \<noteq> otherDocuments example_provider"
proof -
  have l: "otherDocuments example_provider < length (heap example_crowded_world)"
    by code_simp
  have n: "length (heap example_crowded_world ! otherDocuments example_provider) = 15"
    by code_simp
  have t: "heap example_crowded_world ! otherDocuments example_provider
             = example_other_documents 15"
    by code_simp
  have m: "length (example_other_documents 15) = 15"
    by (simp add: example_other_documents_def)
  from otherDocuments_not_mutated [OF l surjective_pairing,
         where e = example_env and model = example_model and pos = example_position
           and settled = "Inr \<lparr>completionItems = None\<rparr>"]
  show ?thesis by (auto simp: n t m)
qed

section \<open>The multiline threshold\<close>

text \<open>
  Claim C10. For a provider constructed with the threshold \<open>thr\<close> (whatever list of
  auxiliary documents was assigned to it afterwards), the request of every run carries a
  multiline configuration exactly when \<open>thr\<close> is a truthy number. It carries none when
  the threshold is undefined or 0, and for a number other than 0 its threshold is that
  number. (\<^verbatim>\<open>NaN\<close>, which is falsy, gives none either.)
\<close>

theorem multiline_config_iff_truthy_threshold:
  assumes "this = (fst (new_MonacoCompletionProvider e key thr w0))\<lparr>otherDocuments := a\<rparr>"
    and "provideInlineCompletions e this model pos settled w = (r, w')"
  shows "\<exists>q. issued_requests (run_events w w') = [q]
     \<and> (request_multilineConfig q \<noteq> None \<longleftrightarrow> (\<exists>t. thr = Some t \<and> truthy t))
     \<and> (thr = None \<or> thr = Some (Finite 0) \<longrightarrow> request_multilineConfig q = None)
     \<and> (\<forall>x. x \<noteq> 0 \<longrightarrow> thr = Some (Finite x) \<longrightarrow>
           request_multilineConfig q = Some \<lparr>threshold = Finite x\<rparr>)
     \<and> (\<forall>t. thr = Some t \<longrightarrow> truthy t \<longrightarrow>
           request_multilineConfig q = Some \<lparr>threshold = t\<rparr>)
     \<and> (thr = Some NaN \<longrightarrow> request_multilineConfig q = None)"
proof -
  have m: "multilineModelThreshold this = thr"
    by (simp add: assms(1) new_MonacoCompletionProvider_def)
  from run_request [OF assms(2)] obtain q where
    q: "issued_requests (run_events w w') = [q]"
    and c: "request_multilineConfig q =
         (case thr of None \<Rightarrow> None
          | Some t \<Rightarrow> if truthy t then Some \<lparr>threshold = t\<rparr> else None)"
    unfolding m by blast
  show ?thesis
  proof (intro exI [of _ q] conjI)
    show "issued_requests (run_events w w') = [q]" by (rule q)
  qed (auto simp: c split: option.splits)
qed


theorem multiline_config_iff_truthy_threshold_witness:
  "request_multilineConfig (hd (issued_requests (run_events example_world
      (snd (provideInlineCompletions example_env
              (example_threshold_provider (Some (Finite (1 / 2)))) example_model
              example_position (Inr \<lparr>completionItems = None\<rparr>) example_world)))))
     = Some \<lparr>threshold = Finite (1 / 2)\<rparr>
   \<and> request_multilineConfig (hd (issued_requests (run_events example_world
      (snd (provideInlineCompletions example_env
              (example_threshold_provider (Some (Finite 0))) example_model
              example_position (Inr \<lparr>completionItems = None\<rparr>) example_world)))))
     = None
   \<and> request_multilineConfig (hd (issued_requests (run_events example_world
      (snd (provideInlineCompletions example_env
              (example_threshold_provider None) example_model
              example_position (Inr \<lparr>completionItems = None\<rparr>) example_world)))))
     = None"
proof -
  have h: "(1 / 2 :: rat) \<noteq> 0" by simp
  from multiline_config_iff_truthy_threshold [OF example_threshold_provider_def surjective_pairing,
         where model = example_model and pos = example_position and w = example_world
           and settled = "Inr \<lparr>completionItems = None\<rparr>" and thr = "Some (Finite (1 / 2))"]
       multiline_config_iff_truthy_threshold [OF example_threshold_provider_def surjective_pairing,
         where model = example_model and pos = example_position and w = example_world
           and settled = "Inr \<lparr>completionItems = None\<rparr>" and thr = "Some (Finite 0)"]
       multiline_config_iff_truthy_threshold [OF example_threshold_provider_def surjective_pairing,
         where model = example_model and pos = example_position and w = example_world
           and settled = "Inr \<lparr>completionItems = None\<rparr>" and thr = "None"]
  show ?thesis using h by auto
qed

section \<open>Offset translation: round trip\<close>

lemma numUtf8BytesForCodeUnit_pos: "0 < numUtf8BytesForCodeUnit u"
  by (simp add: numUtf8BytesForCodeUnit_def)

text \<open>The examples the spec gives for the two functions: a euro sign and an emoji.\<close>

lemma offset_translation_examples:
  "numCodeUnitsToNumUtf8Bytes [0x20AC] 1 = 3"
  "numCodeUnitsToNumUtf8Bytes [0xD83D, 0xDE00] 2 = 4"
  "numUtf8BytesToNumCodeUnits [0xD83D, 0xDE00] 4 = 2"
  by code_simp+

text \<open>
  Claim C7. For every text and every code-unit offset on a code-point boundary of the
  text, translating the offset to UTF-8 bytes and back gives the offset again.
\<close>

theorem offset_roundtrip:
  assumes "codePointBoundary str n"
  shows "numUtf8BytesToNumCodeUnits str (numCodeUnitsToNumUtf8Bytes str n) = n"
  using assms
proof (induction str n rule: numCodeUnitsToNumUtf8Bytes.induct)
  case (1 n)
  then show ?case by (cases n) simp_all
next
  case (2 u n)
  then show ?case using numUtf8BytesForCodeUnit_pos [of u] by (cases n) auto
next
  case (3 u v vs n)
  show ?case
  proof (cases n)
    case 0
    then show ?thesis by simp
  next
    case (Suc k)
    show ?thesis
    proof (cases "isHighSurrogate u \<and> isLowSurrogate v")
      case True
      with Suc "3.prems" obtain m where k: "k = Suc m" and b: "codePointBoundary vs m"
        by (cases k) auto
      from "3.IH"(1) True Suc k b
      have "numUtf8BytesToNumCodeUnits vs (numCodeUnitsToNumUtf8Bytes vs m) = m"
        by simp
      with True Suc k show ?thesis by simp
    next
      case False
      with Suc "3.prems" have b: "codePointBoundary (v # vs) k" by auto
      from "3.IH"(2) False Suc b
      have "numUtf8BytesToNumCodeUnits (v # vs) (numCodeUnitsToNumUtf8Bytes (v # vs) k) = k"
        by simp
      with False Suc numUtf8BytesForCodeUnit_pos [of u] show ?thesis by auto
    qed
  qed
qed

theorem offset_roundtrip_witness:
  "codePointBoundary (getText example_document) 4
   \<and> numCodeUnitsToNumUtf8Bytes (getText example_document) 4 = 8
   \<and> numUtf8BytesToNumCodeUnits (getText example_document)
        (numCodeUnitsToNumUtf8Bytes (getText example_document) 4) = 4"
proof -
  have b: "codePointBoundary (getText example_document) 4" by code_simp
  have c: "numCodeUnitsToNumUtf8Bytes (getText example_document) 4 = 8" by code_simp
  from b c offset_roundtrip [OF b] show ?thesis by simp
qed

text \<open>
  The boundary is needed: offset 3 of the example text lies between the two halves of a
  surrogate pair, and the round trip moves it to 4.
\<close>

lemma offset_roundtrip_off_boundary:
  "\<not> codePointBoundary (getText example_document) 3"
  "numUtf8BytesToNumCodeUnits (getText example_document)
        (numCodeUnitsToNumUtf8Bytes (getText example_document) 3) = 4"
  by code_simp+

end
